theory Spec2Isabelle
  imports Main "HOL-Library.Word"
begin

section \<open>Shared values\<close>

text \<open>
  A thrown JavaScript \<open>Error\<close>: its \<open>message\<close> and, when the object carries a
  \<open>code\<close> property, \<open>String(code)\<close>. Strings are lists of code units below 256.
\<close>

record jserror =
  message :: string
  code :: "string option"

definition newError :: "string \<Rightarrow> jserror" where
  "newError msg = \<lparr>message = msg, code = None\<rparr>"

type_synonym timestamp = nat

section \<open>Quota ledger (src/lib/serverRateLimit.ts)\<close>

text \<open>
  The Firestore document \<open>users/{userId}\<close>, with the fields of the documented structure
  (src/lib/adminUtils.md); every field may be absent. A partial field set, as passed to
  \<open>transaction.update\<close> and \<open>transaction.set\<close>, is a document of the same shape whose
  unmentioned fields are \<open>None\<close>.
\<close>

record userDoc =
  isSpecial :: "bool option"
  lastConversionDate :: "string option"
  conversionsToday :: "int option"
  lastConversion :: "timestamp option"
  updatedAt :: "timestamp option"

type_synonym users = "string \<rightharpoonup> userDoc"

text \<open>
  What one call reads from the process and the clock: the result of \<open>getTodayUTC()\<close>, the
  two \<open>new Date()\<close> readings of the transaction body, the error raised by
  \<open>getAdminFirestore()\<close> or by \<open>firestore.runTransaction\<close> when the storage is
  misconfigured or unreachable, the two API key variables and whether \<open>NODE_ENV\<close> is
  \<open>development\<close>.
\<close>

record env =
  todayUTC :: string
  nowLastConversion :: timestamp
  nowUpdatedAt :: timestamp
  firestoreFault :: "jserror option"
  GEMINI_API_KEY :: "string option"
  GOOGLE_API_KEY :: "string option"
  devMode :: bool

record limitResult =
  allowed :: bool
  reason :: "string option"
  remaining :: "int option"

record txnResult = limitResult +
  shouldRecord :: bool

datatype txnWrite = TxUpdate userDoc | TxSetMerge userDoc

definition orElse :: "'a option \<Rightarrow> 'a option \<Rightarrow> 'a option" where
  "orElse new old = (case new of Some v \<Rightarrow> Some v | None \<Rightarrow> old)"

definition mergeFields :: "userDoc \<Rightarrow> userDoc \<Rightarrow> userDoc" where
  "mergeFields old new =
     \<lparr>isSpecial = orElse (isSpecial new) (isSpecial old),
      lastConversionDate = orElse (lastConversionDate new) (lastConversionDate old),
      conversionsToday = orElse (conversionsToday new) (conversionsToday old),
      lastConversion = orElse (lastConversion new) (lastConversion old),
      updatedAt = orElse (updatedAt new) (updatedAt old)\<rparr>"

definition noFields :: userDoc where
  "noFields = \<lparr>isSpecial = None, lastConversionDate = None, conversionsToday = None,
               lastConversion = None, updatedAt = None\<rparr>"

text \<open>
  Committing a buffered write: \<open>update\<close> fails on a missing document, \<open>set\<close> with
  \<open>merge: true\<close> creates it.
\<close>

definition applyWrite :: "txnWrite \<Rightarrow> userDoc option \<Rightarrow> jserror + userDoc" where
  "applyWrite w d =
     (case w of
        TxUpdate data \<Rightarrow>
          (case d of
             None \<Rightarrow> Inl (newError ''NOT_FOUND: No document to update'')
           | Some old \<Rightarrow> Inr (mergeFields old data))
      | TxSetMerge data \<Rightarrow>
          (case d of
             None \<Rightarrow> Inr (mergeFields noFields data)
           | Some old \<Rightarrow> Inr (mergeFields old data)))"

definition dailyLimitReason :: string where
  "dailyLimitReason =
     ''You have reached your daily limit of 1 conversion. Please try again tomorrow.''"

text \<open>
  The callback passed to \<open>runTransaction\<close> in \<open>checkAndReserveConversion\<close>: from the
  document read (\<open>None\<close> when \<open>userDoc.exists\<close> is false) to the returned object and
  the write it buffers.
\<close>

definition reserveTransaction :: "env \<Rightarrow> userDoc option \<Rightarrow> txnResult \<times> txnWrite option" where
  "reserveTransaction e userDoc =
     (if (case userDoc of Some userData \<Rightarrow> isSpecial userData = Some True | None \<Rightarrow> False)
      then (\<lparr>allowed = True, reason = None, remaining = Some (- 1), shouldRecord = False\<rparr>, None)
      else
        let lastConversionDateV =
              (case userDoc of Some userData \<Rightarrow> lastConversionDate userData | None \<Rightarrow> None);
            conversionsTodayV =
              (case userDoc of
                 Some userData \<Rightarrow> (case conversionsToday userData of Some n \<Rightarrow> n | None \<Rightarrow> 0)
               | None \<Rightarrow> 0)
        in if lastConversionDateV = Some (todayUTC e) then
             if conversionsTodayV \<ge> 1 then
               (\<lparr>allowed = False, reason = Some dailyLimitReason, remaining = Some 0,
                 shouldRecord = False\<rparr>, None)
             else
               (\<lparr>allowed = True, reason = None, remaining = Some 0, shouldRecord = False\<rparr>,
                Some (TxUpdate (noFields\<lparr>conversionsToday := Some (conversionsTodayV + 1),
                                          lastConversion := Some (nowLastConversion e)\<rparr>)))
           else
             (\<lparr>allowed = True, reason = None, remaining = Some 0, shouldRecord = False\<rparr>,
              Some (TxSetMerge (noFields\<lparr>lastConversionDate := Some (todayUTC e),
                                          conversionsToday := Some 1,
                                          lastConversion := Some (nowLastConversion e),
                                          updatedAt := Some (nowUpdatedAt e)\<rparr>))))"

text \<open>
  \<open>checkAndReserveConversion\<close>: the transaction runs atomically on the user's document;
  an infrastructure fault, or a write that cannot be committed, rejects the promise and
  leaves the collection as it was.
\<close>

definition checkAndReserveConversion ::
  "env \<Rightarrow> users \<Rightarrow> string \<Rightarrow> (jserror + limitResult) \<times> users" where
  "checkAndReserveConversion e db userId =
     (case firestoreFault e of
        Some err \<Rightarrow> (Inl err, db)
      | None \<Rightarrow>
          (case reserveTransaction e (db userId) of
             (result, None) \<Rightarrow>
               (Inr \<lparr>allowed = allowed result, reason = reason result,
                     remaining = remaining result\<rparr>, db)
           | (result, Some w) \<Rightarrow>
               (case applyWrite w (db userId) of
                  Inl err \<Rightarrow> (Inl err, db)
                | Inr d \<Rightarrow>
                    (Inr \<lparr>allowed = allowed result, reason = reason result,
                          remaining = remaining result\<rparr>, db(userId \<mapsto> d)))))"

text \<open>
  Calls by one user, each with its own clock readings, one after another. Every call is
  one atomic transaction, so calls made concurrently take effect in the order in which
  their transactions commit, and that order is the order of the list.
\<close>

fun reserveEach :: "env list \<Rightarrow> users \<Rightarrow> string \<Rightarrow> (jserror + limitResult) list \<times> users" where
  "reserveEach [] db userId = ([], db)"
| "reserveEach (e # es) db userId =
     (case checkAndReserveConversion e db userId of
        (r, db1) \<Rightarrow> (case reserveEach es db1 userId of (rs, db2) \<Rightarrow> (r # rs, db2)))"

section \<open>Strings\<close>

text \<open>
  \<open>String.prototype.toLowerCase\<close>, \<open>trim\<close>, \<open>endsWith\<close> and the test of a regular
  expression that is an alternation of literals with the \<open>i\<close> flag, on code units below 256.
\<close>

definition toLowerCaseChar :: "char \<Rightarrow> char" where
  "toLowerCaseChar ch =
     (let n = (of_char ch :: nat)
      in if (65 \<le> n \<and> n \<le> 90) \<or> (192 \<le> n \<and> n \<le> 214) \<or> (216 \<le> n \<and> n \<le> 222)
         then char_of (n + 32) else ch)"

definition toLowerCase :: "string \<Rightarrow> string" where
  "toLowerCase s = map toLowerCaseChar s"

definition isWhiteSpace :: "char \<Rightarrow> bool" where
  "isWhiteSpace ch =
     (let n = (of_char ch :: nat) in (9 \<le> n \<and> n \<le> 13) \<or> n = 32 \<or> n = 160)"

definition trim :: "string \<Rightarrow> string" where
  "trim s = rev (dropWhile isWhiteSpace (rev (dropWhile isWhiteSpace s)))"

definition endsWith :: "string \<Rightarrow> string \<Rightarrow> bool" where
  "endsWith s suffix =
     (length suffix \<le> length s \<and> drop (length s - length suffix) s = suffix)"

fun startsWith :: "string \<Rightarrow> string \<Rightarrow> bool" where
  "startsWith s [] = True"
| "startsWith [] (ch # p) = False"
| "startsWith (a # s) (ch # p) = (a = ch \<and> startsWith s p)"

fun hasSubstring :: "string \<Rightarrow> string \<Rightarrow> bool" where
  "hasSubstring [] p = startsWith [] p"
| "hasSubstring (a # s) p = (startsWith (a # s) p \<or> hasSubstring s p)"

definition testIgnoreCase :: "string list \<Rightarrow> string \<Rightarrow> bool" where
  "testIgnoreCase alternatives s =
     list_ex (\<lambda>p. hasSubstring (toLowerCase s) (toLowerCase p)) alternatives"

definition jsOr :: "string option \<Rightarrow> string \<Rightarrow> string" where
  "jsOr v d = (case v of Some s \<Rightarrow> (if s = [] then d else s) | None \<Rightarrow> d)"

section \<open>Tailoring route (src/app/api/tailor/route.ts)\<close>

subsection \<open>External collaborators and the trace of their calls\<close>

type_synonym buffer = "8 word list"

text \<open>
  The prompt sent to the model is a fixed instruction text with three interpolated
  values; the record keeps those values. The shorten section is present exactly when the
  hint is a non-empty string.
\<close>

record prompt =
  promptShorten :: "string option"
  promptResumeText :: string
  promptJobDescription :: string

text \<open>
  \<open>response.content\<close> of the model's answer: a string, an array of chunks (a string, an
  object with its \<open>text\<close> property when that is a string, or anything else), or another
  value, kept as \<open>String(content)\<close>.
\<close>

datatype chunk = ChunkString string | ChunkObject "string option" | ChunkOther

datatype content = ContentString string | ContentArray "chunk list" | ContentOther string

record pdfData =
  pdfText :: "string option"
  numpages :: "int option"

text \<open>
  Every completed call of an external service is appended to a trace with its outcome;
  \<open>Generate\<close> marks the entry of \<open>getTailoredResume\<close> with its \<open>shortenHint\<close>.
\<close>

datatype event =
    Generate "string option"
  | Invoke prompt "jserror + content"
  | Sleep nat
  | LatexToPdf string "jserror + buffer"
  | PdfParse buffer "jserror + pdfData"
  | Mammoth buffer "jserror + string option"

text \<open>
  The services answer as functions of the number of earlier calls to the same service
  and of the argument, so that a collaborator may answer the same argument differently
  each time: \<open>model.invoke\<close>; the page built from \<open>latexToHtml(latexCode)\<close> and printed
  by the browser inside \<open>latexToPdf\<close>; \<open>pdfParse\<close>; \<open>mammoth.extractRawText\<close>, giving
  \<open>result.value\<close>.
\<close>

record collab =
  invoke :: "nat \<Rightarrow> prompt \<Rightarrow> jserror + content"
  printPdf :: "nat \<Rightarrow> string \<Rightarrow> jserror + buffer"
  pdfParse :: "nat \<Rightarrow> buffer \<Rightarrow> jserror + pdfData"
  extractRawText :: "nat \<Rightarrow> buffer \<Rightarrow> jserror + string option"

type_synonym 'a io = "event list \<Rightarrow> (jserror + 'a) \<times> event list"

fun isInvoke :: "event \<Rightarrow> bool" where
  "isInvoke (Invoke p r) = True"
| "isInvoke ev = False"

fun isLatexToPdf :: "event \<Rightarrow> bool" where
  "isLatexToPdf (LatexToPdf l r) = True"
| "isLatexToPdf ev = False"

fun isPdfParse :: "event \<Rightarrow> bool" where
  "isPdfParse (PdfParse b r) = True"
| "isPdfParse ev = False"

fun isMammoth :: "event \<Rightarrow> bool" where
  "isMammoth (Mammoth b r) = True"
| "isMammoth ev = False"

definition callCount :: "(event \<Rightarrow> bool) \<Rightarrow> event list \<Rightarrow> nat" where
  "callCount kind tr = length (filter kind tr)"

subsection \<open>isRateLimitError, sleep\<close>

definition isRateLimitError :: "jserror \<Rightarrow> bool" where
  "isRateLimitError error =
     (let lower = toLowerCase (message error);
          codeV = (case code error of Some v \<Rightarrow> v | None \<Rightarrow> [])
      in codeV = ''429'' \<or>
         testIgnoreCase [''rate limit'', ''rate_limit'', ''ratelimit'', ''quota'',
                         ''resource exhausted'', ''resource_exhausted'',
                         ''too many requests'', ''429''] lower \<or>
         testIgnoreCase [''quota exceeded'', ''billing'', ''limit exceeded''] lower)"

definition sleep :: "nat \<Rightarrow> unit io" where
  "sleep ms tr = (Inr (), tr @ [Sleep ms])"

subsection \<open>getTailoredResume\<close>

definition buildPrompt :: "string \<Rightarrow> string \<Rightarrow> string option \<Rightarrow> prompt" where
  "buildPrompt resumeText jobDescription shortenHint =
     \<lparr>promptShorten =
        (case shortenHint of Some h \<Rightarrow> (if h = [] then None else Some h) | None \<Rightarrow> None),
      promptResumeText = resumeText,
      promptJobDescription = jobDescription\<rparr>"

definition MAX_LLM_RETRIES :: nat where
  "MAX_LLM_RETRIES = 3"

definition BACKOFF_MS :: "nat list" where
  "BACKOFF_MS = [2000, 4000]"

text \<open>\<open>BACKOFF_MS[attempt] ?? BACKOFF_MS[BACKOFF_MS.length - 1]\<close>\<close>

definition backoffDelay :: "nat \<Rightarrow> nat" where
  "backoffDelay attempt =
     (if attempt < length BACKOFF_MS then BACKOFF_MS ! attempt
      else BACKOFF_MS ! (length BACKOFF_MS - 1))"

text \<open>
  The \<open>for\<close> loop of \<open>getTailoredResume\<close> from a given \<open>attempt\<close>; its value is the
  variable \<open>response\<close>, \<open>None\<close> while undefined.
\<close>

function invokeLoop :: "collab \<Rightarrow> prompt \<Rightarrow> nat \<Rightarrow> content option io" where
  "invokeLoop c p attempt tr =
     (if attempt < MAX_LLM_RETRIES then
        (case invoke c (callCount isInvoke tr) p of
           Inr response \<Rightarrow> (Inr (Some response), tr @ [Invoke p (Inr response)])
         | Inl invokeError \<Rightarrow>
             (let tr1 = tr @ [Invoke p (Inl invokeError)];
                  isLastAttempt = (attempt = MAX_LLM_RETRIES - 1)
              in if isRateLimitError invokeError \<and> \<not> isLastAttempt then
                   (case sleep (backoffDelay attempt) tr1 of
                      (r, tr2) \<Rightarrow> invokeLoop c p (attempt + 1) tr2)
                 else (Inl invokeError, tr1)))
      else (Inr None, tr))"
  by pat_completeness auto
termination
  by (relation "measure (\<lambda>(c, p, attempt, tr). MAX_LLM_RETRIES - attempt)") auto

declare invokeLoop.simps [simp del]

fun chunkText :: "chunk \<Rightarrow> string" where
  "chunkText (ChunkString s) = s"
| "chunkText (ChunkObject (Some maybeText)) = maybeText"
| "chunkText (ChunkObject None) = []"
| "chunkText ChunkOther = []"

fun joinLines :: "string list \<Rightarrow> string" where
  "joinLines [] = []"
| "joinLines [s] = s"
| "joinLines (s # t # rest) = s @ [CHR 0x0A] @ joinLines (t # rest)"

fun contentText :: "content \<Rightarrow> string" where
  "contentText (ContentString s) = trim s"
| "contentText (ContentArray chunks) = trim (joinLines (map chunkText chunks))"
| "contentText (ContentOther s) = trim s"

definition getTailoredResume ::
  "collab \<Rightarrow> env \<Rightarrow> string \<Rightarrow> string \<Rightarrow> string option \<Rightarrow> string io" where
  "getTailoredResume c e resumeText jobDescription shortenHint tr =
     (let tr0 = tr @ [Generate shortenHint];
          apiKey = jsOr (GEMINI_API_KEY e) (jsOr (GOOGLE_API_KEY e) [])
      in if apiKey = [] then
           (Inl (newError
              ''Missing Gemini API key. Set GEMINI_API_KEY or GOOGLE_API_KEY in your environment.''),
            tr0)
         else
           (case invokeLoop c (buildPrompt resumeText jobDescription shortenHint) 0 tr0 of
              (Inl err, tr1) \<Rightarrow> (Inl err, tr1)
            | (Inr None, tr1) \<Rightarrow> (Inl (newError ''LLM did not return a response.''), tr1)
            | (Inr (Some response), tr1) \<Rightarrow> (Inr (contentText response), tr1)))"

subsection \<open>latexToPdf, getPdfPageCount, extractTextFromFile\<close>

definition latexToPdf :: "collab \<Rightarrow> string \<Rightarrow> buffer io" where
  "latexToPdf c latexCode tr =
     (let r = printPdf c (callCount isLatexToPdf tr) latexCode;
          tr1 = tr @ [LatexToPdf latexCode r]
      in case r of
           Inl err \<Rightarrow>
             (Inl (newError
                ''Failed to convert LaTeX to PDF. Please ensure LaTeX code is valid.''), tr1)
         | Inr pdfBuffer \<Rightarrow> (Inr pdfBuffer, tr1))"

definition getPdfPageCount :: "collab \<Rightarrow> buffer \<Rightarrow> int io" where
  "getPdfPageCount c pdfBuffer tr =
     (let r = pdfParse c (callCount isPdfParse tr) pdfBuffer;
          tr1 = tr @ [PdfParse pdfBuffer r]
      in case r of
           Inl err \<Rightarrow> (Inl err, tr1)
         | Inr parsed \<Rightarrow> (Inr (case numpages parsed of Some n \<Rightarrow> n | None \<Rightarrow> 0), tr1))"

record jsFile =
  fileName :: string
  fileType :: string
  fileBytes :: buffer

definition MAX_FILE_SIZE_BYTES :: nat where
  "MAX_FILE_SIZE_BYTES = 10 * 1024 * 1024"

definition extractTextFromFile :: "collab \<Rightarrow> jsFile \<Rightarrow> string io" where
  "extractTextFromFile c f tr =
     (let buf = fileBytes f
      in if length buf > MAX_FILE_SIZE_BYTES then
           (Inl (newError ''File is too large. Please upload a file under 10MB.''), tr)
         else
           let mimeType = fileType f; lowerName = toLowerCase (fileName f)
           in if mimeType = ''application/pdf'' \<or> endsWith lowerName ''.pdf'' then
                (let r = pdfParse c (callCount isPdfParse tr) buf;
                     tr1 = tr @ [PdfParse buf r]
                 in case r of
                      Inl err \<Rightarrow> (Inl err, tr1)
                    | Inr parsed \<Rightarrow> (Inr (jsOr (pdfText parsed) []), tr1))
              else if mimeType =
                        ''application/vnd.openxmlformats-officedocument.wordprocessingml.document''
                      \<or> endsWith lowerName ''.docx'' then
                (let r = extractRawText c (callCount isMammoth tr) buf;
                     tr1 = tr @ [Mammoth buf r]
                 in case r of
                      Inl err \<Rightarrow> (Inl err, tr1)
                    | Inr v \<Rightarrow> (Inr (jsOr v []), tr1))
              else
                (Inl (newError ''Unsupported file type. Please upload a PDF or DOCX file.''), tr))"

subsection \<open>The page-fit loop of POST\<close>

text \<open>The local variables of \<open>POST\<close> that the loop assigns.\<close>

record tailored =
  latexCode :: string
  pdfBuffer :: buffer
  shortenHint :: "string option"
  pageCount :: int

definition MAX_PAGE_ITERATIONS :: nat where
  "MAX_PAGE_ITERATIONS = 3"

definition shortenHintFirst :: string where
  "shortenHintFirst =
     ''Your previous output was more than one page. You MUST shorten it: reduce to 2-3 bullet points per role, use more concise phrasing, omit less relevant roles or sections. The resume MUST fit on a single A4 page. Preserve the most important achievements and maintain skills categorization.''"

definition shortenHintStill :: string where
  "shortenHintStill =
     ''Your output is STILL more than one page. Be more aggressive: at most 2 bullets per role, more concise wording, but still maintain skills categorization. Fit on ONE page only.''"

text \<open>One attempt: \<open>getTailoredResume\<close>, \<open>latexToPdf\<close>, \<open>getPdfPageCount\<close> in sequence.\<close>

definition generateAndRender :: "collab \<Rightarrow> env \<Rightarrow> string \<Rightarrow> string \<Rightarrow> string option \<Rightarrow> tailored io" where
  "generateAndRender c e resumeText jobDescription hint tr =
     (case getTailoredResume c e resumeText jobDescription hint tr of
        (Inl err, tr1) \<Rightarrow> (Inl err, tr1)
      | (Inr latex, tr1) \<Rightarrow>
          (case latexToPdf c latex tr1 of
             (Inl err, tr2) \<Rightarrow> (Inl err, tr2)
           | (Inr pdf, tr2) \<Rightarrow>
               (case getPdfPageCount c pdf tr2 of
                  (Inl err, tr3) \<Rightarrow> (Inl err, tr3)
                | (Inr n, tr3) \<Rightarrow>
                    (Inr \<lparr>latexCode = latex, pdfBuffer = pdf, shortenHint = hint,
                          pageCount = n\<rparr>, tr3))))"

text \<open>The \<open>for\<close> loop from a given \<open>iteration\<close>, with the variables as they stand.\<close>

function shortenLoop ::
  "collab \<Rightarrow> env \<Rightarrow> string \<Rightarrow> string \<Rightarrow> nat \<Rightarrow> tailored \<Rightarrow> tailored io" where
  "shortenLoop c e resumeText jobDescription iteration st tr =
     (if iteration < MAX_PAGE_ITERATIONS then
        (let hint = (if iteration = 1 then shortenHintFirst else shortenHintStill)
         in case generateAndRender c e resumeText jobDescription (Some hint) tr of
              (Inl err, tr1) \<Rightarrow> (Inl err, tr1)
            | (Inr st1, tr1) \<Rightarrow>
                (if pageCount st1 \<le> 1 then (Inr st1, tr1)
                 else shortenLoop c e resumeText jobDescription (iteration + 1) st1 tr1))
      else (Inr st, tr))"
  by pat_completeness auto
termination
  by (relation "measure (\<lambda>(c, e, r, j, iteration, st, tr). MAX_PAGE_ITERATIONS - iteration)")
     auto

declare shortenLoop.simps [simp del]

text \<open>Lines 616 to 647 of \<open>POST\<close>: the first attempt without a hint, then the loop.\<close>

definition fitToOnePage :: "collab \<Rightarrow> env \<Rightarrow> string \<Rightarrow> string \<Rightarrow> tailored io" where
  "fitToOnePage c e resumeText jobDescription tr =
     (case generateAndRender c e resumeText jobDescription None tr of
        (Inl err, tr1) \<Rightarrow> (Inl err, tr1)
      | (Inr st0, tr1) \<Rightarrow>
          (if pageCount st0 > 1 then shortenLoop c e resumeText jobDescription 1 st0 tr1
           else (Inr st0, tr1)))"

subsection \<open>POST\<close>

text \<open>
  The request is its parsed form data. A successful response carries the PDF (sent
  base64-encoded) and the LaTeX; the suggested file name, computed from the LaTeX by
  \<open>extractNameFromLatex\<close> and \<open>generateFilename\<close>, is left out.
\<close>

datatype formValue = FormString string | FormFile jsFile

record formData =
  userIdField :: "formValue option"
  resumeField :: "formValue option"
  resumeTextField :: "formValue option"
  jobDescriptionField :: "formValue option"

datatype response = JsonError nat string | JsonTailored buffer string

record world =
  usersCollection :: users
  trace :: "event list"

text \<open>\<open>String(formData.get(name) || "")\<close>\<close>

fun formString :: "formValue option \<Rightarrow> string" where
  "formString None = []"
| "formString (Some (FormString s)) = s"
| "formString (Some (FormFile f)) = ''[object File]''"

text \<open>The \<open>catch\<close> block of \<open>POST\<close>.\<close>

definition errorResponse :: "env \<Rightarrow> jserror \<Rightarrow> response" where
  "errorResponse e error =
     (let msg = message error;
          isCredentialsError =
            testIgnoreCase [''default credentials'', ''credentials'', ''FIREBASE_SERVICE_ACCOUNT'',
                            ''GOOGLE_APPLICATION_CREDENTIALS''] msg;
          isRateLimited = isRateLimitError error;
          userMessage =
            (if isRateLimited then
               ''The resume service is temporarily busy due to high demand. Please try again in a few minutes.''
             else if isCredentialsError then
               ''Server configuration: set FIREBASE_SERVICE_ACCOUNT (Firebase service account JSON) for tailoring and rate limiting to work. See Firebase Admin setup docs.''
             else if devMode e then msg
             else ''Please try again later.'');
          status = (if isRateLimited then 503 else 500)
      in JsonError status
           (if isRateLimited then userMessage else ''Failed to tailor resume. '' @ userMessage))"

text \<open>Lines 606 to 663: from the resolved \<open>resumeText\<close> to the response.\<close>

definition tailorResume ::
  "collab \<Rightarrow> env \<Rightarrow> string \<Rightarrow> string \<Rightarrow> world \<Rightarrow> response \<times> world" where
  "tailorResume c e resumeText jobDescription w =
     (if resumeText = [] then
        (JsonError 400
           ''Resume text is empty. Please provide a valid resume file or paste resume content.'',
         w)
      else
        (case fitToOnePage c e resumeText jobDescription (trace w) of
           (Inl err, tr1) \<Rightarrow> (errorResponse e err, w\<lparr>trace := tr1\<rparr>)
         | (Inr st, tr1) \<Rightarrow> (JsonTailored (pdfBuffer st) (latexCode st), w\<lparr>trace := tr1\<rparr>)))"

definition POST :: "collab \<Rightarrow> env \<Rightarrow> formData \<Rightarrow> world \<Rightarrow> response \<times> world" where
  "POST c e form w =
     (let userId = trim (formString (userIdField form));
          file = resumeField form;
          resumeTextInput = trim (formString (resumeTextField form));
          jobDescription = trim (formString (jobDescriptionField form))
      in if userId = [] then (JsonError 401 ''User authentication required.'', w)
         else
           (case checkAndReserveConversion e (usersCollection w) userId of
              (Inl err, db1) \<Rightarrow> (errorResponse e err, w\<lparr>usersCollection := db1\<rparr>)
            | (Inr limitCheck, db1) \<Rightarrow>
                (let w1 = w\<lparr>usersCollection := db1\<rparr>
                 in if \<not> allowed limitCheck then
                      (JsonError 429 (jsOr (reason limitCheck) ''Conversion limit reached.''), w1)
                    else if jobDescription = [] then
                      (JsonError 400 ''Job description is required.'', w1)
                    else if resumeTextInput \<noteq> [] then
                      tailorResume c e resumeTextInput jobDescription w1
                    else
                      (case file of
                         Some (FormFile f) \<Rightarrow>
                           (case extractTextFromFile c f (trace w1) of
                              (Inl err, tr1) \<Rightarrow> (errorResponse e err, w1\<lparr>trace := tr1\<rparr>)
                            | (Inr extracted, tr1) \<Rightarrow>
                                tailorResume c e (trim extracted) jobDescription
                                  (w1\<lparr>trace := tr1\<rparr>))
                       | _ \<Rightarrow>
                           (JsonError 400
                              ''Please provide either a resume file or paste resume text.'',
                            w1)))))"

subsection \<open>Reading a trace\<close>

text \<open>
  The calls of each kind in a trace, in order: the hints of the \<open>getTailoredResume\<close>
  calls, the delays slept, the outcomes of the model calls, the \<open>latexToPdf\<close> calls and
  the \<open>pdfParse\<close> calls, each with its outcome.
\<close>

fun generateCalls :: "event list \<Rightarrow> string option list" where
  "generateCalls [] = []"
| "generateCalls (Generate h # evs) = h # generateCalls evs"
| "generateCalls (ev # evs) = generateCalls evs"

fun sleeps :: "event list \<Rightarrow> nat list" where
  "sleeps [] = []"
| "sleeps (Sleep ms # evs) = ms # sleeps evs"
| "sleeps (ev # evs) = sleeps evs"

fun renders :: "event list \<Rightarrow> (string \<times> (jserror + buffer)) list" where
  "renders [] = []"
| "renders (LatexToPdf l r # evs) = (l, r) # renders evs"
| "renders (ev # evs) = renders evs"

fun parses :: "event list \<Rightarrow> (buffer \<times> (jserror + pdfData)) list" where
  "parses [] = []"
| "parses (PdfParse b r # evs) = (b, r) # parses evs"
| "parses (ev # evs) = parses evs"

text \<open>The events a \<open>getTailoredResume\<close> call adds after its own mark.\<close>

fun isModelEvent :: "event \<Rightarrow> bool" where
  "isModelEvent (Invoke p r) = True"
| "isModelEvent (Sleep ms) = True"
| "isModelEvent ev = False"

fun isRenderFault :: "event \<Rightarrow> bool" where
  "isRenderFault (LatexToPdf l (Inl err)) = True"
| "isRenderFault ev = False"

definition renderFaultError :: jserror where
  "renderFaultError =
     newError ''Failed to convert LaTeX to PDF. Please ensure LaTeX code is valid.''"

definition newEvents :: "event list \<Rightarrow> event list \<Rightarrow> event list" where
  "newEvents before after = drop (length before) after"

text \<open>
  Among the events of a run no render fault occurred, or the run ended with the given
  failure and the fault is its last event.
\<close>

definition faultIsLast :: "'r \<Rightarrow> 'r \<Rightarrow> event list \<Rightarrow> bool" where
  "faultIsLast failure res evs =
     (\<not> list_ex isRenderFault evs \<or>
      (res = failure \<and> evs \<noteq> [] \<and> isRenderFault (last evs) \<and>
       \<not> list_ex isRenderFault (butlast evs)))"

section \<open>Example inputs\<close>

definition busy :: jserror where
  "busy = \<lparr>message = ''Too Many Requests'', code = Some ''429''\<rparr>"

definition quotaExceeded :: jserror where
  "quotaExceeded = \<lparr>message = ''Quota exceeded'', code = None\<rparr>"

definition badKey :: jserror where
  "badKey = \<lparr>message = ''API key not valid'', code = Some ''400''\<rparr>"

definition twoPages :: pdfData where
  "twoPages = \<lparr>pdfText = None, numpages = Some 2\<rparr>"

definition onePage :: pdfData where
  "onePage = \<lparr>pdfText = None, numpages = Some 1\<rparr>"

text \<open>A model that always answers and a renderer whose output always has two pages.\<close>

definition neverFits :: collab where
  "neverFits =
     \<lparr>invoke = (\<lambda>k p. Inr (ContentString ''body'')),
      printPdf = (\<lambda>k l. Inr [1]),
      pdfParse = (\<lambda>k b. Inr twoPages),
      extractRawText = (\<lambda>k b. Inr None)\<rparr>"

definition fitsAtOnce :: collab where
  "fitsAtOnce = neverFits\<lparr>pdfParse := (\<lambda>k b. Inr onePage)\<rparr>"

text \<open>A model that is rate limited on its first two calls.\<close>

definition busyTwice :: collab where
  "busyTwice =
     neverFits\<lparr>invoke := (\<lambda>k p. if k = 0 then Inl busy else if k = 1 then Inl quotaExceeded
                                  else Inr (ContentString '' body ''))\<rparr>"

text \<open>A model that is rate limited once and then rejects the key.\<close>

definition busyThenBroken :: collab where
  "busyThenBroken = neverFits\<lparr>invoke := (\<lambda>k p. if k = 0 then Inl busy else Inl badKey)\<rparr>"

text \<open>A renderer whose second call fails.\<close>

definition secondRenderFails :: collab where
  "secondRenderFails =
     neverFits\<lparr>printPdf := (\<lambda>k l. if k = 1 then Inl (newError ''Protocol error'')
                                    else Inr [1])\<rparr>"

definition pastedForm :: formData where
  "pastedForm =
     \<lparr>userIdField = Some (FormString ''u1''), resumeField = None,
      resumeTextField = Some (FormString ''resume''),
      jobDescriptionField = Some (FormString ''job'')\<rparr>"

definition freshWorld :: world where
  "freshWorld = \<lparr>usersCollection = Map.empty, trace = []\<rparr>"

definition exampleEnv :: env where
  "exampleEnv =
     \<lparr>todayUTC = ''2026-01-15'', nowLastConversion = 1000, nowUpdatedAt = 1001,
      firestoreFault = None, GEMINI_API_KEY = Some ''key'', GOOGLE_API_KEY = None,
      devMode = False\<rparr>"

definition usedToday :: userDoc where
  "usedToday =
     \<lparr>isSpecial = None, lastConversionDate = Some ''2026-01-15'', conversionsToday = Some 1,
      lastConversion = Some 900, updatedAt = Some 900\<rparr>"


definition specialUser :: userDoc where
  "specialUser =
     \<lparr>isSpecial = Some True, lastConversionDate = None, conversionsToday = None,
      lastConversion = None, updatedAt = None\<rparr>"

text \<open>The trace of a request whose second render fails.\<close>

definition faultyTrace :: "event list" where
  "faultyTrace =
     [Generate None,
      Invoke (buildPrompt ''resume'' ''job'' None) (Inr (ContentString ''body'')),
      LatexToPdf ''body'' (Inr [1]), PdfParse [1] (Inr twoPages),
      Generate (Some shortenHintFirst),
      Invoke (buildPrompt ''resume'' ''job'' (Some shortenHintFirst))
        (Inr (ContentString ''body'')),
      LatexToPdf ''body'' (Inl (newError ''Protocol error''))]"

section \<open>Properties of the quota ledger\<close>

lemmas ledger_defs = checkAndReserveConversion_def reserveTransaction_def applyWrite_def
  mergeFields_def noFields_def orElse_def

text \<open>
  A user with the daily slot available is granted and left with one conversion today; a
  user with a conversion today is denied and nothing is written.
\<close>

lemma reserve_available:
  assumes up: "firestoreFault e = None"
    and avail: "case db userId of None \<Rightarrow> True
       | Some d \<Rightarrow> isSpecial d \<noteq> Some True \<and>
           (lastConversionDate d \<noteq> Some (todayUTC e) \<or> conversionsToday d = None \<or>
            conversionsToday d = Some 0)"
  shows "\<exists>db1 d1. checkAndReserveConversion e db userId =
            (Inr \<lparr>allowed = True, reason = None, remaining = Some 0\<rparr>, db1) \<and>
          db1 userId = Some d1 \<and> isSpecial d1 \<noteq> Some True \<and>
          lastConversionDate d1 = Some (todayUTC e) \<and> conversionsToday d1 = Some 1"
  using assms by (auto simp: ledger_defs split: option.splits)

lemma reserve_denied:
  assumes "db userId = Some d" and "isSpecial d \<noteq> Some True"
    and "lastConversionDate d = Some (todayUTC e)"
    and "conversionsToday d = Some n" and "1 \<le> n"
    and "firestoreFault e = None"
  shows "checkAndReserveConversion e db userId =
           (Inr \<lparr>allowed = False, reason = Some dailyLimitReason, remaining = Some 0\<rparr>, db)"
  using assms by (simp add: ledger_defs)

text \<open>
  C1. A user who is not special and has no earlier reservation (no document, or a document
  without \<open>lastConversionDate\<close>) and who reserves twice on the same UTC day, with the
  storage reachable, is granted the first time with \<open>remaining = 0\<close> and denied the
  second time with \<open>remaining = 0\<close> and the daily-limit reason.
\<close>

theorem single_daily_slot:
  assumes "case db userId of None \<Rightarrow> True
     | Some d \<Rightarrow> isSpecial d \<noteq> Some True \<and> lastConversionDate d = None"
    and "firestoreFault e1 = None" and "firestoreFault e2 = None"
    and "todayUTC e2 = todayUTC e1"
  shows "\<exists>db1. checkAndReserveConversion e1 db userId =
            (Inr \<lparr>allowed = True, reason = None, remaining = Some 0\<rparr>, db1) \<and>
          checkAndReserveConversion e2 db1 userId =
            (Inr \<lparr>allowed = False, reason = Some dailyLimitReason, remaining = Some 0\<rparr>, db1)"
proof -
  have avail: "case db userId of None \<Rightarrow> True
       | Some d \<Rightarrow> isSpecial d \<noteq> Some True \<and>
           (lastConversionDate d \<noteq> Some (todayUTC e1) \<or> conversionsToday d = None \<or>
            conversionsToday d = Some 0)"
    using assms(1) by (simp split: option.splits)
  from reserve_available [of e1 db userId, OF assms(2) avail] obtain db1 d1 where
    first: "checkAndReserveConversion e1 db userId =
          (Inr \<lparr>allowed = True, reason = None, remaining = Some 0\<rparr>, db1)"
    and d1: "db1 userId = Some d1" "isSpecial d1 \<noteq> Some True"
      "lastConversionDate d1 = Some (todayUTC e1)" "conversionsToday d1 = Some 1"
    by blast
  have "checkAndReserveConversion e2 db1 userId =
          (Inr \<lparr>allowed = False, reason = Some dailyLimitReason, remaining = Some 0\<rparr>, db1)"
    using d1 assms(3,4) by (intro reserve_denied [where n = 1]) simp_all
  with first show ?thesis by blast
qed

theorem single_daily_slot_witness:
  "\<exists>db1. checkAndReserveConversion exampleEnv Map.empty ''u1'' =
            (Inr \<lparr>allowed = True, reason = None, remaining = Some 0\<rparr>, db1) \<and>
          checkAndReserveConversion (exampleEnv\<lparr>nowLastConversion := 5000\<rparr>) db1 ''u1'' =
            (Inr \<lparr>allowed = False, reason = Some dailyLimitReason, remaining = Some 0\<rparr>, db1)"
  using single_daily_slot
    [of Map.empty "''u1''" exampleEnv "exampleEnv\<lparr>nowLastConversion := 5000\<rparr>"]
  by (simp add: exampleEnv_def)

text \<open>
  C3. When a user who is not special has \<open>lastConversionDate\<close> equal to today and
  \<open>conversionsToday\<close> at least 1, the call returns \<open>allowed = false\<close> and the whole
  collection, this user's document included, is left as it was.
\<close>

theorem deny_writes_nothing:
  assumes "db userId = Some d" and "isSpecial d \<noteq> Some True"
    and "lastConversionDate d = Some (todayUTC e)"
    and "conversionsToday d = Some n" and "1 \<le> n"
    and "firestoreFault e = None"
  shows "checkAndReserveConversion e db userId =
           (Inr \<lparr>allowed = False, reason = Some dailyLimitReason, remaining = Some 0\<rparr>, db)"
  using assms by (simp add: ledger_defs)

theorem deny_writes_nothing_witness:
  "checkAndReserveConversion exampleEnv [''u1'' \<mapsto> usedToday] ''u1'' =
     (Inr \<lparr>allowed = False, reason = Some dailyLimitReason, remaining = Some 0\<rparr>,
      [''u1'' \<mapsto> usedToday])"
  using deny_writes_nothing [of "[''u1'' \<mapsto> usedToday]" "''u1''" usedToday exampleEnv 1]
  by (simp add: exampleEnv_def usedToday_def)

text \<open>
  C4. For a user whose document has \<open>isSpecial = true\<close>, any number of calls in
  sequence each return \<open>allowed = true\<close> with \<open>remaining = -1\<close>, and the collection is
  unchanged at the end; no field of the document is written.
\<close>

theorem special_user_unlimited:
  assumes "db userId = Some d" and "isSpecial d = Some True"
    and "\<forall>e \<in> set es. firestoreFault e = None"
  shows "reserveEach es db userId =
           (replicate (length es)
              (Inr \<lparr>allowed = True, reason = None, remaining = Some (- 1)\<rparr>), db)"
  using assms by (induction es) (simp_all add: ledger_defs)

theorem special_user_unlimited_witness:
  "reserveEach [exampleEnv, exampleEnv, exampleEnv\<lparr>todayUTC := ''2026-01-16''\<rparr>]
     [''vip'' \<mapsto> specialUser] ''vip'' =
   ([Inr \<lparr>allowed = True, reason = None, remaining = Some (- 1)\<rparr>,
     Inr \<lparr>allowed = True, reason = None, remaining = Some (- 1)\<rparr>,
     Inr \<lparr>allowed = True, reason = None, remaining = Some (- 1)\<rparr>],
    [''vip'' \<mapsto> specialUser])"
proof -
  have up: "\<forall>e \<in> set [exampleEnv, exampleEnv, exampleEnv\<lparr>todayUTC := ''2026-01-16''\<rparr>].
              firestoreFault e = None"
    by (simp add: exampleEnv_def)
  have doc: "[''vip'' \<mapsto> specialUser] ''vip'' = Some specialUser"
    by simp
  have special: "isSpecial specialUser = Some True"
    by (simp add: specialUser_def)
  show ?thesis
    using special_user_unlimited
            [of "[''vip'' \<mapsto> specialUser]" "''vip''" specialUser, OF doc special up]
    by (simp add: numeral_3_eq_3 del: reserveEach.simps)
qed







section \<open>Properties of traces\<close>

lemma callCount_append [simp]: "callCount k (xs @ ys) = callCount k xs + callCount k ys"
  by (simp add: callCount_def)

lemma callCount_Nil [simp]: "callCount k [] = 0"
  by (simp add: callCount_def)

lemma callCount_Cons [simp]: "callCount k (x # xs) = (if k x then 1 else 0) + callCount k xs"
  by (simp add: callCount_def)

lemma sleeps_append [simp]: "sleeps (xs @ ys) = sleeps xs @ sleeps ys"
  by (induction xs rule: sleeps.induct) simp_all

lemma generateCalls_append [simp]: "generateCalls (xs @ ys) = generateCalls xs @ generateCalls ys"
  by (induction xs rule: generateCalls.induct) simp_all

lemma renders_append [simp]: "renders (xs @ ys) = renders xs @ renders ys"
  by (induction xs rule: renders.induct) simp_all

lemma parses_append [simp]: "parses (xs @ ys) = parses xs @ parses ys"
  by (induction xs rule: parses.induct) simp_all

lemma newEvents_append [simp]: "newEvents tr (tr @ evs) = evs"
  by (simp add: newEvents_def)

lemma list_ex_append_simp [simp]: "list_ex P (xs @ ys) = (list_ex P xs \<or> list_ex P ys)"
  by (induction xs) simp_all

lemma model_events_silent:
  "list_all isModelEvent evs \<Longrightarrow>
   generateCalls evs = [] \<and> renders evs = [] \<and> parses evs = [] \<and>
   callCount isLatexToPdf evs = 0 \<and> callCount isPdfParse evs = 0 \<and>
   \<not> list_ex isRenderFault evs"
proof (induction evs)
  case Nil
  then show ?case by simp
next
  case (Cons ev evs)
  then show ?case by (cases ev) simp_all
qed

section \<open>Properties of getTailoredResume\<close>

lemma backoffDelay_simps [simp]: "backoffDelay 0 = 2000" "backoffDelay (Suc 0) = 4000"
  by (simp_all add: backoffDelay_def BACKOFF_MS_def)

lemma invokeLoop_Inr:
  "attempt < MAX_LLM_RETRIES \<Longrightarrow> invoke c (callCount isInvoke tr) p = Inr r \<Longrightarrow>
   invokeLoop c p attempt tr = (Inr (Some r), tr @ [Invoke p (Inr r)])"
  by (subst invokeLoop.simps) simp

lemma invokeLoop_retry:
  "attempt < MAX_LLM_RETRIES - 1 \<Longrightarrow> invoke c (callCount isInvoke tr) p = Inl err \<Longrightarrow>
   isRateLimitError err \<Longrightarrow>
   invokeLoop c p attempt tr =
     invokeLoop c p (attempt + 1) (tr @ [Invoke p (Inl err), Sleep (backoffDelay attempt)])"
  by (subst invokeLoop.simps) (auto simp add: sleep_def)

lemma invokeLoop_throw:
  "attempt < MAX_LLM_RETRIES \<Longrightarrow> invoke c (callCount isInvoke tr) p = Inl err \<Longrightarrow>
   \<not> isRateLimitError err \<or> attempt = MAX_LLM_RETRIES - 1 \<Longrightarrow>
   invokeLoop c p attempt tr = (Inl err, tr @ [Invoke p (Inl err)])"
  by (subst invokeLoop.simps) auto

text \<open>
  A failure that is not a rate limit at attempt \<open>a + j\<close>, after \<open>j\<close> rate-limited
  attempts, is rethrown at once: the failed call is the last event.
\<close>

lemma invokeLoop_fatal:
  "a + j < MAX_LLM_RETRIES \<Longrightarrow>
   \<forall>i<j. \<exists>ei. invoke c (callCount isInvoke tr + i) p = Inl ei \<and> isRateLimitError ei \<Longrightarrow>
   invoke c (callCount isInvoke tr + j) p = Inl err \<Longrightarrow> \<not> isRateLimitError err \<Longrightarrow>
   \<exists>evs. invokeLoop c p a tr = (Inl err, tr @ evs @ [Invoke p (Inl err)]) \<and>
         list_all isModelEvent evs \<and>
         callCount isInvoke evs = j \<and> sleeps evs = map backoffDelay [a..<a + j]"
proof (induction j arbitrary: a tr)
  case 0
  then show ?case using invokeLoop_throw [of a c tr p err] by simp
next
  case (Suc j)
  from Suc.prems(2) obtain e0 where e0: "invoke c (callCount isInvoke tr) p = Inl e0" "isRateLimitError e0"
    by force
  let ?tr1 = "tr @ [Invoke p (Inl e0), Sleep (backoffDelay a)]"
  have step: "invokeLoop c p a tr = invokeLoop c p (a + 1) ?tr1"
    using invokeLoop_retry [of a c tr p e0] e0 Suc.prems(1) by simp
  have cnt: "callCount isInvoke ?tr1 = callCount isInvoke tr + 1" by simp
  have "\<exists>evs. invokeLoop c p (a + 1) ?tr1 = (Inl err, ?tr1 @ evs @ [Invoke p (Inl err)]) \<and>
         list_all isModelEvent evs \<and>
         callCount isInvoke evs = j \<and> sleeps evs = map backoffDelay [a + 1..<a + 1 + j]"
  proof (rule Suc.IH)
    show "a + 1 + j < MAX_LLM_RETRIES" using Suc.prems(1) by simp
    show "\<forall>i<j. \<exists>ei. invoke c (callCount isInvoke ?tr1 + i) p = Inl ei \<and> isRateLimitError ei"
    proof (intro allI impI)
      fix i assume "i < j"
      then have "Suc i < Suc j" by simp
      with Suc.prems(2) obtain ei where "invoke c (callCount isInvoke tr + Suc i) p = Inl ei \<and> isRateLimitError ei"
        by blast
      then show "\<exists>ei. invoke c (callCount isInvoke ?tr1 + i) p = Inl ei \<and> isRateLimitError ei"
        by (simp add: cnt)
    qed
    show "invoke c (callCount isInvoke ?tr1 + j) p = Inl err" using Suc.prems(3) by (simp add: cnt)
    show "\<not> isRateLimitError err" by fact
  qed
  then obtain evs where evs: "invokeLoop c p (a + 1) ?tr1 = (Inl err, ?tr1 @ evs @ [Invoke p (Inl err)])"
    "callCount isInvoke evs = j" "sleeps evs = map backoffDelay [a + 1..<a + 1 + j]"
    and quiet: "list_all isModelEvent evs" by blast
  let ?evs = "[Invoke p (Inl e0), Sleep (backoffDelay a)] @ evs"
  have "invokeLoop c p a tr = (Inl err, tr @ ?evs @ [Invoke p (Inl err)])"
    using step evs(1) by simp
  moreover have "list_all isModelEvent ?evs" using quiet by simp
  moreover have "callCount isInvoke ?evs = Suc j" using evs(2) by simp
  moreover have "[a..<a + Suc j] = a # [a + 1..<a + 1 + j]"
    by (simp add: upt_conv_Cons del: upt_Suc)
  then have "sleeps ?evs = map backoffDelay [a..<a + Suc j]"
    using evs(3) by simp
  ultimately show ?case by blast
qed

lemma getTailoredResume_with_key:
  "jsOr (GEMINI_API_KEY e) (jsOr (GOOGLE_API_KEY e) []) \<noteq> [] \<Longrightarrow>
   getTailoredResume c e rt jd h tr =
     (case invokeLoop c (buildPrompt rt jd h) 0 (tr @ [Generate h]) of
        (Inl err, tr1) \<Rightarrow> (Inl err, tr1)
      | (Inr None, tr1) \<Rightarrow> (Inl (newError ''LLM did not return a response.''), tr1)
      | (Inr (Some response), tr1) \<Rightarrow> (Inr (contentText response), tr1))"
  by (simp add: getTailoredResume_def Let_def)

lemma invokeLoop_trace:
  "\<exists>evs. snd (invokeLoop c p a tr) = tr @ evs \<and> list_all isModelEvent evs"
proof (induction "MAX_LLM_RETRIES - a" arbitrary: a tr)
  case 0
  then have "\<not> a < MAX_LLM_RETRIES" by simp
  then show ?case by (subst invokeLoop.simps) simp
next
  case (Suc m)
  then have lt: "a < MAX_LLM_RETRIES" by simp
  show ?case
  proof (cases "invoke c (callCount isInvoke tr) p")
    case (Inr r)
    then show ?thesis using lt by (simp add: invokeLoop_Inr)
  next
    case (Inl err)
    show ?thesis
    proof (cases "isRateLimitError err \<and> a < MAX_LLM_RETRIES - 1")
      case True
      let ?tr1 = "tr @ [Invoke p (Inl err), Sleep (backoffDelay a)]"
      have step: "invokeLoop c p a tr = invokeLoop c p (a + 1) ?tr1"
        using True Inl by (simp add: invokeLoop_retry)
      have "m = MAX_LLM_RETRIES - (a + 1)" using Suc.hyps(2) by simp
      from Suc.hyps(1) [OF this, of ?tr1]
      obtain evs where "snd (invokeLoop c p (a + 1) ?tr1) = ?tr1 @ evs" "list_all isModelEvent evs"
        by blast
      then have "snd (invokeLoop c p a tr) = tr @ ([Invoke p (Inl err), Sleep (backoffDelay a)] @ evs)
          \<and> list_all isModelEvent ([Invoke p (Inl err), Sleep (backoffDelay a)] @ evs)"
        using step by simp
      then show ?thesis by blast
    next
      case False
      then have "\<not> isRateLimitError err \<or> a = MAX_LLM_RETRIES - 1" using lt by auto
      then show ?thesis using lt Inl by (simp add: invokeLoop_throw)
    qed
  qed
qed

lemma getTailoredResume_trace:
  "\<exists>evs. snd (getTailoredResume c e rt jd h tr) = tr @ Generate h # evs \<and>
         list_all isModelEvent evs"
proof -
  obtain evs where evs: "snd (invokeLoop c (buildPrompt rt jd h) 0 (tr @ [Generate h])) =
      (tr @ [Generate h]) @ evs" "list_all isModelEvent evs"
    using invokeLoop_trace by blast
  show ?thesis
  proof (cases "jsOr (GEMINI_API_KEY e) (jsOr (GOOGLE_API_KEY e) []) = []")
    case True
    then show ?thesis by (simp add: getTailoredResume_def Let_def)
  next
    case False
    have "snd (getTailoredResume c e rt jd h tr) =
          snd (invokeLoop c (buildPrompt rt jd h) 0 (tr @ [Generate h]))"
      by (simp add: getTailoredResume_with_key [OF False] split: prod.splits sum.splits option.splits)
    with evs show ?thesis by simp
  qed
qed

text \<open>
  C8. With an API key set, one call of \<open>getTailoredResume\<close> whose model call raises
  classified rate-limit errors on the first two attempts and answers on the third sleeps
  exactly twice, 2000 ms and then 4000 ms, and returns the trimmed answer. When an attempt
  (the first, second or third, every earlier one rate limited) raises an error that is not
  classified as a rate limit, that error is the result, the failed call is the last event
  (no sleep and no further call follow it), and the only sleeps are those of the earlier
  rate-limited attempts.
\<close>

theorem rate_limit_retry:
  assumes key: "jsOr (GEMINI_API_KEY e) (jsOr (GOOGLE_API_KEY e) []) \<noteq> []"
    and p: "p = buildPrompt resumeText jobDescription hint"
    and k: "k = callCount isInvoke tr"
  shows "(isRateLimitError errA \<and> isRateLimitError errB \<and>
          invoke c k p = Inl errA \<and> invoke c (k + 1) p = Inl errB \<and> invoke c (k + 2) p = Inr r \<longrightarrow>
          getTailoredResume c e resumeText jobDescription hint tr =
            (Inr (contentText r),
             tr @ [Generate hint, Invoke p (Inl errA), Sleep 2000, Invoke p (Inl errB), Sleep 4000,
                   Invoke p (Inr r)])) \<and>
         (\<forall>j err. j < MAX_LLM_RETRIES \<and>
            (\<forall>i<j. \<exists>ei. invoke c (k + i) p = Inl ei \<and> isRateLimitError ei) \<and>
            invoke c (k + j) p = Inl err \<and> \<not> isRateLimitError err \<longrightarrow>
            (\<exists>evs. getTailoredResume c e resumeText jobDescription hint tr =
                     (Inl err, tr @ [Generate hint] @ evs @ [Invoke p (Inl err)]) \<and>
                   list_all isModelEvent evs \<and>
                   callCount isInvoke evs = j \<and> sleeps evs = take j BACKOFF_MS))"
proof (intro conjI impI allI)
  assume a: "isRateLimitError errA \<and> isRateLimitError errB \<and>
          invoke c k p = Inl errA \<and> invoke c (k + 1) p = Inl errB \<and> invoke c (k + 2) p = Inr r"
  let ?t0 = "tr @ [Generate hint]"
  let ?t1 = "?t0 @ [Invoke p (Inl errA), Sleep (backoffDelay 0)]"
  let ?t2 = "?t1 @ [Invoke p (Inl errB), Sleep (backoffDelay (0 + 1))]"
  have s1: "invokeLoop c p 0 ?t0 = invokeLoop c p (0 + 1) ?t1"
    using a k by (intro invokeLoop_retry) (simp_all add: MAX_LLM_RETRIES_def)
  have s2: "invokeLoop c p (0 + 1) ?t1 = invokeLoop c p (0 + 1 + 1) ?t2"
    using a k by (intro invokeLoop_retry) (simp_all add: MAX_LLM_RETRIES_def)
  have s3: "invokeLoop c p (0 + 1 + 1) ?t2 = (Inr (Some r), ?t2 @ [Invoke p (Inr r)])"
    using a k by (intro invokeLoop_Inr) (simp_all add: MAX_LLM_RETRIES_def)
  show "getTailoredResume c e resumeText jobDescription hint tr =
            (Inr (contentText r),
             tr @ [Generate hint, Invoke p (Inl errA), Sleep 2000, Invoke p (Inl errB), Sleep 4000,
                   Invoke p (Inr r)])"
    using getTailoredResume_with_key [OF key, of c resumeText jobDescription hint tr] s1 s2 s3 p by simp
next
  fix j err
  assume a: "j < MAX_LLM_RETRIES \<and>
            (\<forall>i<j. \<exists>ei. invoke c (k + i) p = Inl ei \<and> isRateLimitError ei) \<and>
            invoke c (k + j) p = Inl err \<and> \<not> isRateLimitError err"
  let ?t0 = "tr @ [Generate hint]"
  have cnt: "callCount isInvoke ?t0 = k" using k by simp
  have "\<exists>evs. invokeLoop c p 0 ?t0 = (Inl err, ?t0 @ evs @ [Invoke p (Inl err)]) \<and>
         list_all isModelEvent evs \<and>
         callCount isInvoke evs = j \<and> sleeps evs = map backoffDelay [0..<0 + j]"
    using a by (intro invokeLoop_fatal) (simp_all add: k)
  then obtain evs where evs: "invokeLoop c p 0 ?t0 = (Inl err, ?t0 @ evs @ [Invoke p (Inl err)])"
    "list_all isModelEvent evs"
    "callCount isInvoke evs = j" "sleeps evs = map backoffDelay [0..<j]" by auto
  have "j = 0 \<or> j = 1 \<or> j = 2" using a by (auto simp: MAX_LLM_RETRIES_def)
  then have "map backoffDelay [0..<j] = take j BACKOFF_MS"
    by (auto simp: BACKOFF_MS_def numeral_2_eq_2)
  with evs getTailoredResume_with_key [OF key, of c resumeText jobDescription hint tr] p
  show "\<exists>evs. getTailoredResume c e resumeText jobDescription hint tr =
                     (Inl err, tr @ [Generate hint] @ evs @ [Invoke p (Inl err)]) \<and>
                   list_all isModelEvent evs \<and>
                   callCount isInvoke evs = j \<and> sleeps evs = take j BACKOFF_MS"
    by auto
qed

lemma busy_is_rate_limit: "isRateLimitError busy"
  by code_simp

lemma quotaExceeded_is_rate_limit: "isRateLimitError quotaExceeded"
  by code_simp

lemma badKey_not_rate_limit: "\<not> isRateLimitError badKey"
  by code_simp

lemma exampleEnv_key: "jsOr (GEMINI_API_KEY exampleEnv) (jsOr (GOOGLE_API_KEY exampleEnv) []) \<noteq> []"
  by (simp add: exampleEnv_def jsOr_def)

lemma body_text: "trim ''body'' = ''body''" "trim '' body '' = ''body''"
  by code_simp+

theorem rate_limit_retry_witness:
  "getTailoredResume busyTwice exampleEnv ''resume'' ''job'' None [] =
     (Inr ''body'',
      [Generate None,
       Invoke (buildPrompt ''resume'' ''job'' None) (Inl busy), Sleep 2000,
       Invoke (buildPrompt ''resume'' ''job'' None) (Inl quotaExceeded), Sleep 4000,
       Invoke (buildPrompt ''resume'' ''job'' None) (Inr (ContentString '' body ''))]) \<and>
   (\<exists>evs. getTailoredResume busyThenBroken exampleEnv ''resume'' ''job'' None [] =
            (Inl badKey,
             [] @ [Generate None] @ evs @
             [Invoke (buildPrompt ''resume'' ''job'' None) (Inl badKey)]) \<and>
          list_all isModelEvent evs \<and>
          callCount isInvoke evs = 1 \<and> sleeps evs = take 1 BACKOFF_MS)"
proof -
  let ?p = "buildPrompt ''resume'' ''job'' None"
  have k: "(0::nat) = callCount isInvoke []" by (simp add: callCount_def)
  note retry = rate_limit_retry [OF exampleEnv_key refl k,
      where c = busyTwice and errA = busy and errB = quotaExceeded
        and r = "ContentString '' body ''"
        and resumeText = "''resume''" and jobDescription = "''job''" and hint = None]
  note fatal = rate_limit_retry [OF exampleEnv_key refl k,
      where c = busyThenBroken and resumeText = "''resume''" and jobDescription = "''job''"
        and hint = None]
  have first: "getTailoredResume busyTwice exampleEnv ''resume'' ''job'' None [] =
     (Inr ''body'',
      [Generate None, Invoke ?p (Inl busy), Sleep 2000, Invoke ?p (Inl quotaExceeded),
       Sleep 4000, Invoke ?p (Inr (ContentString '' body ''))])"
    using retry [THEN conjunct1] busy_is_rate_limit quotaExceeded_is_rate_limit
    by (simp add: busyTwice_def neverFits_def body_text)
  have "1 < MAX_LLM_RETRIES \<and>
        (\<forall>i<1. \<exists>ei. invoke busyThenBroken (0 + i) ?p = Inl ei \<and> isRateLimitError ei) \<and>
        invoke busyThenBroken (0 + 1) ?p = Inl badKey \<and> \<not> isRateLimitError badKey"
    using busy_is_rate_limit badKey_not_rate_limit
    by (simp add: busyThenBroken_def neverFits_def MAX_LLM_RETRIES_def)
  with fatal [THEN conjunct2, THEN spec, THEN spec, THEN mp, of 1 badKey]
  have second: "\<exists>evs. getTailoredResume busyThenBroken exampleEnv ''resume'' ''job'' None [] =
            (Inl badKey, [] @ [Generate None] @ evs @ [Invoke ?p (Inl badKey)]) \<and>
          list_all isModelEvent evs \<and>
          callCount isInvoke evs = 1 \<and> sleeps evs = take 1 BACKOFF_MS"
    by blast
  from first second show ?thesis by blast
qed

section \<open>Properties of the page-fit loop\<close>

lemma latexToPdf_eq:
  "latexToPdf c l tr =
     (case printPdf c (callCount isLatexToPdf tr) l of
        Inl x \<Rightarrow> (Inl renderFaultError, tr @ [LatexToPdf l (Inl x)])
      | Inr b \<Rightarrow> (Inr b, tr @ [LatexToPdf l (Inr b)]))"
  by (simp add: latexToPdf_def renderFaultError_def Let_def split: sum.splits)

lemma getPdfPageCount_eq:
  "getPdfPageCount c b tr =
     (case pdfParse c (callCount isPdfParse tr) b of
        Inl x \<Rightarrow> (Inl x, tr @ [PdfParse b (Inl x)])
      | Inr d \<Rightarrow> (Inr (case numpages d of Some n \<Rightarrow> n | None \<Rightarrow> 0), tr @ [PdfParse b (Inr d)]))"
  by (simp add: getPdfPageCount_def Let_def split: sum.splits)

text \<open>
  One successful attempt, from what the collaborators answer.
\<close>

lemma generateAndRender_ok:
  assumes gen: "getTailoredResume c e rt jd h tr = (Inr latex, tr1)"
    and pr: "printPdf c (callCount isLatexToPdf tr) latex = Inr pdf"
    and pc: "pdfParse c (callCount isPdfParse tr) pdf = Inr d"
  shows "\<exists>evs. tr1 = tr @ Generate h # evs \<and> list_all isModelEvent evs \<and>
           generateAndRender c e rt jd h tr =
             (Inr \<lparr>latexCode = latex, pdfBuffer = pdf, shortenHint = h,
                   pageCount = (case numpages d of Some n \<Rightarrow> n | None \<Rightarrow> 0)\<rparr>,
              tr1 @ [LatexToPdf latex (Inr pdf), PdfParse pdf (Inr d)])"
proof -
  obtain evs where evs: "tr1 = tr @ Generate h # evs" "list_all isModelEvent evs"
    using getTailoredResume_trace [of c e rt jd h tr] gen by auto
  have silent: "callCount isLatexToPdf evs = 0" "callCount isPdfParse evs = 0"
    using model_events_silent [OF evs(2)] by simp_all
  have l: "latexToPdf c latex tr1 = (Inr pdf, tr1 @ [LatexToPdf latex (Inr pdf)])"
    using pr by (simp add: latexToPdf_eq evs(1) silent)
  have g: "getPdfPageCount c pdf (tr1 @ [LatexToPdf latex (Inr pdf)]) =
      (Inr (case numpages d of Some n \<Rightarrow> n | None \<Rightarrow> 0),
       tr1 @ [LatexToPdf latex (Inr pdf), PdfParse pdf (Inr d)])"
    using pc by (simp add: getPdfPageCount_eq evs(1) silent)
  show ?thesis using evs gen l g by (simp add: generateAndRender_def)
qed

lemma shortenLoop_exit:
  "\<not> iteration < MAX_PAGE_ITERATIONS \<Longrightarrow> shortenLoop c e rt jd iteration st tr = (Inr st, tr)"
  by (subst shortenLoop.simps) simp

lemma shortenLoop_step:
  "iteration < MAX_PAGE_ITERATIONS \<Longrightarrow> nxt = iteration + 1 \<Longrightarrow>
   generateAndRender c e rt jd
     (Some (if iteration = 1 then shortenHintFirst else shortenHintStill)) tr = (Inr st1, tr1) \<Longrightarrow>
   shortenLoop c e rt jd iteration st tr =
     (if pageCount st1 \<le> 1 then (Inr st1, tr1)
      else shortenLoop c e rt jd nxt st1 tr1)"
  by (subst shortenLoop.simps) (simp add: Let_def)

lemma shortenLoop_err:
  "iteration < MAX_PAGE_ITERATIONS \<Longrightarrow>
   generateAndRender c e rt jd
     (Some (if iteration = 1 then shortenHintFirst else shortenHintStill)) tr = (Inl err, tr1) \<Longrightarrow>
   shortenLoop c e rt jd iteration st tr = (Inl err, tr1)"
  by (subst shortenLoop.simps) (simp add: Let_def)




lemma generates_body:
  assumes "invoke c = (\<lambda>k p. Inr (ContentString ''body''))"
  shows "getTailoredResume c exampleEnv rt jd h t =
     (Inr ''body'', t @ [Generate h, Invoke (buildPrompt rt jd h) (Inr (ContentString ''body''))])"
proof -
  have "invokeLoop c (buildPrompt rt jd h) 0 (t @ [Generate h]) =
      (Inr (Some (ContentString ''body'')),
       (t @ [Generate h]) @ [Invoke (buildPrompt rt jd h) (Inr (ContentString ''body''))])"
    by (rule invokeLoop_Inr) (simp_all add: MAX_LLM_RETRIES_def assms)
  then show ?thesis
    by (simp add: getTailoredResume_with_key [OF exampleEnv_key] body_text)
qed


lemma fitsAtOnce_generates:
  "getTailoredResume fitsAtOnce exampleEnv rt jd h t =
     (Inr ''body'', t @ [Generate h, Invoke (buildPrompt rt jd h) (Inr (ContentString ''body''))])"
proof -
  have "invokeLoop fitsAtOnce (buildPrompt rt jd h) 0 (t @ [Generate h]) =
      (Inr (Some (ContentString ''body'')),
       (t @ [Generate h]) @ [Invoke (buildPrompt rt jd h) (Inr (ContentString ''body''))])"
    by (rule invokeLoop_Inr) (simp_all add: MAX_LLM_RETRIES_def neverFits_def fitsAtOnce_def)
  then show ?thesis
    by (simp add: getTailoredResume_with_key [OF exampleEnv_key] body_text)
qed

text \<open>
  C7. When the first \<open>getTailoredResume\<close> call returns and the first render has at
  most one page, the loop returns that attempt's LaTeX, PDF and page count, and it has
  made exactly one \<open>getTailoredResume\<close> call, with no shorten hint, one
  \<open>latexToPdf\<close> call and one page count.
\<close>

theorem fits_first_time:
  assumes gen: "getTailoredResume c e resumeText jobDescription None tr = (Inr latex, tr1)"
    and pr: "printPdf c (callCount isLatexToPdf tr) latex = Inr pdf"
    and pc: "pdfParse c (callCount isPdfParse tr) pdf = Inr d"
    and fits: "(case numpages d of Some n \<Rightarrow> n | None \<Rightarrow> 0) \<le> 1"
  shows "\<exists>tr2. fitToOnePage c e resumeText jobDescription tr =
           (Inr \<lparr>latexCode = latex, pdfBuffer = pdf, shortenHint = None,
                 pageCount = (case numpages d of Some n \<Rightarrow> n | None \<Rightarrow> 0)\<rparr>, tr2) \<and>
         generateCalls (newEvents tr tr2) = [None] \<and>
         renders (newEvents tr tr2) = [(latex, Inr pdf)] \<and>
         parses (newEvents tr tr2) = [(pdf, Inr d)]"
proof -
  from generateAndRender_ok [OF gen pr pc] obtain evs where
    evs: "tr1 = tr @ Generate None # evs" "list_all isModelEvent evs" and
    gr: "generateAndRender c e resumeText jobDescription None tr =
             (Inr \<lparr>latexCode = latex, pdfBuffer = pdf, shortenHint = None,
                   pageCount = (case numpages d of Some n \<Rightarrow> n | None \<Rightarrow> 0)\<rparr>,
              tr1 @ [LatexToPdf latex (Inr pdf), PdfParse pdf (Inr d)])"
    by blast
  have "fitToOnePage c e resumeText jobDescription tr =
           (Inr \<lparr>latexCode = latex, pdfBuffer = pdf, shortenHint = None,
                 pageCount = (case numpages d of Some n \<Rightarrow> n | None \<Rightarrow> 0)\<rparr>,
            tr1 @ [LatexToPdf latex (Inr pdf), PdfParse pdf (Inr d)])"
    using gr fits by (simp add: fitToOnePage_def)
  moreover have "newEvents tr (tr1 @ [LatexToPdf latex (Inr pdf), PdfParse pdf (Inr d)]) =
      Generate None # evs @ [LatexToPdf latex (Inr pdf), PdfParse pdf (Inr d)]"
    by (simp add: evs(1) newEvents_def)
  ultimately show ?thesis using model_events_silent [OF evs(2)] by simp
qed

theorem fits_first_time_witness:
  "\<exists>tr2. fitToOnePage fitsAtOnce exampleEnv ''resume'' ''job'' [] =
           (Inr \<lparr>latexCode = ''body'', pdfBuffer = [1], shortenHint = None, pageCount = 1\<rparr>,
            tr2) \<and>
         generateCalls (newEvents [] tr2) = [None] \<and>
         renders (newEvents [] tr2) = [(''body'', Inr [1])] \<and>
         parses (newEvents [] tr2) = [([1], Inr onePage)]"
proof -
  have pr: "printPdf fitsAtOnce (callCount isLatexToPdf []) ''body'' = Inr [1]"
    by (simp add: fitsAtOnce_def neverFits_def)
  have pc: "pdfParse fitsAtOnce (callCount isPdfParse []) [1] = Inr onePage"
    by (simp add: fitsAtOnce_def neverFits_def)
  have fits: "(case numpages onePage of Some n \<Rightarrow> n | None \<Rightarrow> 0) \<le> 1"
    by (simp add: onePage_def)
  from fits_first_time [OF fitsAtOnce_generates pr pc fits]
  show ?thesis by (simp add: onePage_def)
qed

text \<open>
  A pasted request by a fresh user reaches \<open>tailorResume\<close> with the slot reserved.
\<close>

lemma form_texts: "trim ''u1'' = ''u1''" "trim ''resume'' = ''resume''" "trim ''job'' = ''job''"
  by code_simp+

lemma pasted_POST:
  "\<exists>db. POST c exampleEnv pastedForm freshWorld =
         tailorResume c exampleEnv ''resume'' ''job'' \<lparr>usersCollection = db, trace = []\<rparr>"
proof -
  have "\<exists>db. checkAndReserveConversion exampleEnv Map.empty ''u1'' =
          (Inr \<lparr>allowed = True, reason = None, remaining = Some 0\<rparr>, db)"
    by (simp add: ledger_defs exampleEnv_def)
  then obtain db where "checkAndReserveConversion exampleEnv Map.empty ''u1'' =
          (Inr \<lparr>allowed = True, reason = None, remaining = Some 0\<rparr>, db)"
    by blast
  then have "POST c exampleEnv pastedForm freshWorld =
         tailorResume c exampleEnv ''resume'' ''job'' \<lparr>usersCollection = db, trace = []\<rparr>"
    by (simp add: POST_def Let_def pastedForm_def freshWorld_def form_texts)
  then show ?thesis by blast
qed








section \<open>Render faults\<close>

lemma faultIsLast_none: "\<not> list_ex isRenderFault evs \<Longrightarrow> faultIsLast f res evs"
  by (simp add: faultIsLast_def)

lemma faultIsLast_prepend:
  "\<not> list_ex isRenderFault evs1 \<Longrightarrow> faultIsLast f res evs2 \<Longrightarrow> faultIsLast f res (evs1 @ evs2)"
  by (auto simp: faultIsLast_def butlast_append)

lemma faultIsLast_Inr:
  "faultIsLast (Inl err) (Inr st) evs \<Longrightarrow> \<not> list_ex isRenderFault evs"
  by (simp add: faultIsLast_def)

lemma generateAndRender_fault:
  "\<exists>evs. snd (generateAndRender c e rt jd h tr) = tr @ evs \<and>
         faultIsLast (Inl renderFaultError) (fst (generateAndRender c e rt jd h tr)) evs"
proof -
  obtain evs where evs: "snd (getTailoredResume c e rt jd h tr) = tr @ Generate h # evs"
    "list_all isModelEvent evs"
    using getTailoredResume_trace by blast
  have quiet: "\<not> list_ex isRenderFault evs" using model_events_silent [OF evs(2)] by simp
  obtain r1 tr1 where g: "getTailoredResume c e rt jd h tr = (r1, tr1)" by force
  with evs have tr1: "tr1 = tr @ Generate h # evs" by simp
  show ?thesis
  proof (cases r1)
    case (Inl err)
    then show ?thesis using g tr1 quiet
      by (auto simp: generateAndRender_def faultIsLast_def)
  next
    case (Inr latex)
    show ?thesis
    proof (cases "printPdf c (callCount isLatexToPdf tr1) latex")
      case (Inl x)
      then have "generateAndRender c e rt jd h tr =
          (Inl renderFaultError, tr @ (Generate h # evs @ [LatexToPdf latex (Inl x)]))"
        using g Inr tr1 by (simp add: generateAndRender_def latexToPdf_eq)
      moreover have "faultIsLast (Inl renderFaultError) (Inl renderFaultError :: jserror + tailored)
          (Generate h # evs @ [LatexToPdf latex (Inl x)])"
        using quiet by (simp add: faultIsLast_def butlast_append)
      ultimately show ?thesis by (metis fst_conv snd_conv)
    next
      case b: (Inr b)
      let ?tr2 = "tr1 @ [LatexToPdf latex (Inr b)]"
      have l: "latexToPdf c latex tr1 = (Inr b, ?tr2)" using b by (simp add: latexToPdf_eq)
      show ?thesis
      proof (cases "pdfParse c (callCount isPdfParse ?tr2) b")
        case (Inl x)
        then have "generateAndRender c e rt jd h tr =
            (Inl x, tr @ (Generate h # evs @ [LatexToPdf latex (Inr b), PdfParse b (Inl x)]))"
          using g Inr tr1 l by (simp add: generateAndRender_def getPdfPageCount_eq)
        moreover have "\<not> list_ex isRenderFault
            (Generate h # evs @ [LatexToPdf latex (Inr b), PdfParse b (Inl x)])"
          using quiet by simp
        ultimately show ?thesis using faultIsLast_none by (metis fst_conv snd_conv)
      next
        case d: (Inr d)
        then have "\<exists>st. generateAndRender c e rt jd h tr =
            (Inr st, tr @ (Generate h # evs @ [LatexToPdf latex (Inr b), PdfParse b (Inr d)]))"
          using g Inr tr1 l by (simp add: generateAndRender_def getPdfPageCount_eq)
        moreover have "\<not> list_ex isRenderFault
            (Generate h # evs @ [LatexToPdf latex (Inr b), PdfParse b (Inr d)])"
          using quiet by simp
        ultimately show ?thesis using faultIsLast_none by (metis fst_conv snd_conv)
      qed
    qed
  qed
qed

lemma shortenLoop_fault:
  "\<exists>evs. snd (shortenLoop c e rt jd i st tr) = tr @ evs \<and>
         faultIsLast (Inl renderFaultError) (fst (shortenLoop c e rt jd i st tr)) evs"
proof (induction "MAX_PAGE_ITERATIONS - i" arbitrary: i st tr)
  case 0
  then have "\<not> i < MAX_PAGE_ITERATIONS" by simp
  then show ?case by (simp add: shortenLoop_exit faultIsLast_def)
next
  case (Suc m)
  then have lt: "i < MAX_PAGE_ITERATIONS" by simp
  let ?h = "Some (if i = 1 then shortenHintFirst else shortenHintStill)"
  obtain evs1 where evs1: "snd (generateAndRender c e rt jd ?h tr) = tr @ evs1"
    "faultIsLast (Inl renderFaultError) (fst (generateAndRender c e rt jd ?h tr)) evs1"
    using generateAndRender_fault by blast
  obtain r1 tr1 where g: "generateAndRender c e rt jd ?h tr = (r1, tr1)" by force
  show ?case
  proof (cases r1)
    case (Inl err)
    then have "shortenLoop c e rt jd i st tr = (Inl err, tr1)"
      using shortenLoop_err [OF lt] g by simp
    then show ?thesis using evs1 g Inl by auto
  next
    case (Inr st1)
    have quiet1: "\<not> list_ex isRenderFault evs1"
      using evs1(2) g Inr faultIsLast_Inr by fastforce
    have step: "shortenLoop c e rt jd i st tr =
       (if pageCount st1 \<le> 1 then (Inr st1, tr1) else shortenLoop c e rt jd (i + 1) st1 tr1)"
      using shortenLoop_step [OF lt refl] g Inr by simp
    show ?thesis
    proof (cases "pageCount st1 \<le> 1")
      case True
      then show ?thesis using step evs1 g Inr by auto
    next
      case False
      have "m = MAX_PAGE_ITERATIONS - (i + 1)" using Suc.hyps(2) by simp
      from Suc.hyps(1) [OF this, of st1 tr1] obtain evs2 where
        evs2: "snd (shortenLoop c e rt jd (i + 1) st1 tr1) = tr1 @ evs2"
        "faultIsLast (Inl renderFaultError) (fst (shortenLoop c e rt jd (i + 1) st1 tr1)) evs2"
        by blast
      have "snd (shortenLoop c e rt jd i st tr) = tr @ (evs1 @ evs2)"
        using step False evs2(1) evs1(1) g by simp
      moreover have "faultIsLast (Inl renderFaultError) (fst (shortenLoop c e rt jd i st tr))
          (evs1 @ evs2)"
        using step False evs2(2) quiet1 by (simp add: faultIsLast_prepend)
      ultimately show ?thesis by blast
    qed
  qed
qed

lemma fitToOnePage_fault:
  "\<exists>evs. snd (fitToOnePage c e rt jd tr) = tr @ evs \<and>
         faultIsLast (Inl renderFaultError) (fst (fitToOnePage c e rt jd tr)) evs"
proof -
  obtain evs1 where evs1: "snd (generateAndRender c e rt jd None tr) = tr @ evs1"
    "faultIsLast (Inl renderFaultError) (fst (generateAndRender c e rt jd None tr)) evs1"
    using generateAndRender_fault by blast
  obtain r1 tr1 where g: "generateAndRender c e rt jd None tr = (r1, tr1)" by force
  show ?thesis
  proof (cases r1)
    case (Inl err)
    then show ?thesis using evs1 g by (auto simp: fitToOnePage_def)
  next
    case (Inr st0)
    have quiet1: "\<not> list_ex isRenderFault evs1"
      using evs1(2) g Inr faultIsLast_Inr by fastforce
    show ?thesis
    proof (cases "pageCount st0 > 1")
      case False
      then show ?thesis using evs1 g Inr by (auto simp: fitToOnePage_def)
    next
      case True
      then have eq: "fitToOnePage c e rt jd tr = shortenLoop c e rt jd 1 st0 tr1"
        using g Inr by (simp add: fitToOnePage_def)
      obtain evs2 where
        evs2: "snd (shortenLoop c e rt jd 1 st0 tr1) = tr1 @ evs2"
        "faultIsLast (Inl renderFaultError) (fst (shortenLoop c e rt jd 1 st0 tr1)) evs2"
        using shortenLoop_fault by blast
      have "snd (fitToOnePage c e rt jd tr) = tr @ (evs1 @ evs2)"
        using eq evs2(1) evs1(1) g by simp
      moreover have "faultIsLast (Inl renderFaultError) (fst (fitToOnePage c e rt jd tr))
          (evs1 @ evs2)"
        using eq evs2(2) quiet1 by (simp add: faultIsLast_prepend)
      ultimately show ?thesis by blast
    qed
  qed
qed

lemma extractTextFromFile_quiet:
  "\<exists>evs. snd (extractTextFromFile c f tr) = tr @ evs \<and> \<not> list_ex isRenderFault evs"
  by (auto simp: extractTextFromFile_def Let_def split: sum.splits)

lemma tailorResume_fault:
  "\<exists>evs. trace (snd (tailorResume c e rt jd w)) = trace w @ evs \<and>
         faultIsLast (errorResponse e renderFaultError) (fst (tailorResume c e rt jd w)) evs"
proof (cases "rt = []")
  case True
  then show ?thesis by (simp add: tailorResume_def faultIsLast_def)
next
  case False
  obtain evs where evs: "snd (fitToOnePage c e rt jd (trace w)) = trace w @ evs"
    "faultIsLast (Inl renderFaultError) (fst (fitToOnePage c e rt jd (trace w))) evs"
    using fitToOnePage_fault by blast
  obtain r tr1 where f: "fitToOnePage c e rt jd (trace w) = (r, tr1)" by force
  show ?thesis
  proof (cases r)
    case (Inl err)
    then have "tailorResume c e rt jd w = (errorResponse e err, w\<lparr>trace := tr1\<rparr>)"
      using False f by (simp add: tailorResume_def)
    then show ?thesis using evs f Inl by (auto simp: faultIsLast_def)
  next
    case (Inr st)
    then have "tailorResume c e rt jd w =
        (JsonTailored (pdfBuffer st) (latexCode st), w\<lparr>trace := tr1\<rparr>)"
      using False f by (simp add: tailorResume_def)
    moreover have "\<not> list_ex isRenderFault evs"
      using evs(2) f Inr faultIsLast_Inr by fastforce
    ultimately show ?thesis using evs f by (auto simp: faultIsLast_def)
  qed
qed

lemma POST_cases:
  "POST c e form w = (resp, w') \<Longrightarrow>
   trace w' = trace w \<or>
   (\<exists>w1 rt jd. trace w1 = trace w \<and> tailorResume c e rt jd w1 = (resp, w')) \<or>
   (\<exists>w1 f ext tr1 jd. extractTextFromFile c f (trace w) = (Inr ext, tr1) \<and>
        tailorResume c e (trim ext) jd (w1\<lparr>trace := tr1\<rparr>) = (resp, w')) \<or>
   (\<exists>f err tr1. extractTextFromFile c f (trace w) = (Inl err, tr1) \<and> trace w' = tr1)"
  unfolding POST_def Let_def
  by (auto split: if_splits prod.splits sum.splits option.splits formValue.splits)

lemma POST_fault:
  assumes "POST c e form w = (resp, w')"
  shows "\<exists>evs. trace w' = trace w @ evs \<and>
          faultIsLast (errorResponse e renderFaultError) resp evs"
proof -
  from POST_cases [OF assms] consider
    (same) "trace w' = trace w"
  | (pasted) w1 rt jd where "trace w1 = trace w" "tailorResume c e rt jd w1 = (resp, w')"
  | (upload) w1 f ext tr1 jd where "extractTextFromFile c f (trace w) = (Inr ext, tr1)"
        "tailorResume c e (trim ext) jd (w1\<lparr>trace := tr1\<rparr>) = (resp, w')"
  | (unreadable) f err tr1 where "extractTextFromFile c f (trace w) = (Inl err, tr1)"
        "trace w' = tr1"
    by blast
  then show ?thesis
  proof cases
    case same
    then show ?thesis by (simp add: faultIsLast_def)
  next
    case pasted
    then show ?thesis using tailorResume_fault [of c e rt jd w1] by simp
  next
    case upload
    obtain evs1 where evs1: "tr1 = trace w @ evs1" "\<not> list_ex isRenderFault evs1"
      using extractTextFromFile_quiet [of c f "trace w"] upload(1) by auto
    obtain evs2 where evs2: "trace w' = tr1 @ evs2"
      "faultIsLast (errorResponse e renderFaultError) resp evs2"
      using tailorResume_fault [of c e "trim ext" jd "w1\<lparr>trace := tr1\<rparr>"] upload(2) by auto
    have "trace w' = trace w @ (evs1 @ evs2)" using evs1 evs2 by simp
    moreover have "faultIsLast (errorResponse e renderFaultError) resp (evs1 @ evs2)"
      using evs1(2) evs2(2) by (rule faultIsLast_prepend)
    ultimately show ?thesis by blast
  next
    case unreadable
    then show ?thesis using extractTextFromFile_quiet [of c f "trace w"]
      by (auto simp: faultIsLast_def)
  qed
qed

lemma renderFault_not_rate_limit: "\<not> isRateLimitError renderFaultError"
  by code_simp

lemma renderFault_response:
  "errorResponse e renderFaultError =
     JsonError 500 (''Failed to tailor resume. '' @
       (if devMode e then message renderFaultError else ''Please try again later.''))"
proof -
  have "\<not> testIgnoreCase [''default credentials'', ''credentials'', ''FIREBASE_SERVICE_ACCOUNT'',
                            ''GOOGLE_APPLICATION_CREDENTIALS''] (message renderFaultError)"
    by code_simp
  then show ?thesis
    by (simp add: errorResponse_def renderFault_not_rate_limit Let_def)
qed

text \<open>
  A request whose second render fails, step by step.
\<close>

lemma secondRenderFails_invoke:
  "invoke secondRenderFails = (\<lambda>k p. Inr (ContentString ''body''))"
  by (simp add: secondRenderFails_def neverFits_def)

lemma secondRenderFails_answers:
  "printPdf secondRenderFails k l =
     (if k = 1 then Inl (newError ''Protocol error'') else Inr [1])"
  "pdfParse secondRenderFails k b = Inr twoPages"
  by (simp_all add: secondRenderFails_def neverFits_def)

lemma faulty_loop:
  "fitToOnePage secondRenderFails exampleEnv ''resume'' ''job'' [] =
     (Inl renderFaultError, faultyTrace)"
proof -
  note gen = generates_body [OF secondRenderFails_invoke]
  let ?st0 = "\<lparr>latexCode = ''body'', pdfBuffer = [1], shortenHint = None, pageCount = 2\<rparr>"
  let ?t0 = "[Generate None,
      Invoke (buildPrompt ''resume'' ''job'' None) (Inr (ContentString ''body'')),
      LatexToPdf ''body'' (Inr [1]), PdfParse [1] (Inr twoPages)]"
  have a0: "generateAndRender secondRenderFails exampleEnv ''resume'' ''job'' None [] =
      (Inr ?st0, ?t0)"
    by (simp add: generateAndRender_def gen latexToPdf_eq getPdfPageCount_eq
        secondRenderFails_answers twoPages_def)
  have a1: "generateAndRender secondRenderFails exampleEnv ''resume'' ''job''
      (Some (if (1::nat) = 1 then shortenHintFirst else shortenHintStill)) ?t0 =
      (Inl renderFaultError, faultyTrace)"
    by (simp add: generateAndRender_def gen latexToPdf_eq secondRenderFails_answers
        faultyTrace_def twoPages_def)
  have "shortenLoop secondRenderFails exampleEnv ''resume'' ''job'' 1 ?st0 ?t0 =
      (Inl renderFaultError, faultyTrace)"
    by (rule shortenLoop_err [OF _ a1]) (simp add: MAX_PAGE_ITERATIONS_def)
  then show ?thesis using a0 by (simp add: fitToOnePage_def)
qed

lemma exampleEnv_prod: "\<not> devMode exampleEnv"
  by (simp add: exampleEnv_def)

lemma faulty_POST:
  "\<exists>db. POST secondRenderFails exampleEnv pastedForm freshWorld =
     (JsonError 500 ''Failed to tailor resume. Please try again later.'',
      \<lparr>usersCollection = db, trace = faultyTrace\<rparr>)"
proof -
  obtain db where "POST secondRenderFails exampleEnv pastedForm freshWorld =
         tailorResume secondRenderFails exampleEnv ''resume'' ''job''
           \<lparr>usersCollection = db, trace = []\<rparr>"
    using pasted_POST by blast
  then have "POST secondRenderFails exampleEnv pastedForm freshWorld =
     (JsonError 500 ''Failed to tailor resume. Please try again later.'',
      \<lparr>usersCollection = db, trace = faultyTrace\<rparr>)"
    using exampleEnv_prod
    by (simp add: tailorResume_def faulty_loop renderFault_response)
  then show ?thesis by blast
qed

text \<open>
  C9, as stated, fails. In this request the first render has two pages and the second
  render, in iteration 1 of at most three, fails. The loop does not go on to iteration 2:
  there are two \<open>getTailoredResume\<close> calls, not three, the failed render is the last
  one, and the response has status 500.
\<close>

theorem render_fault_counterexample:
  "fst (POST secondRenderFails exampleEnv pastedForm freshWorld) =
     JsonError 500 ''Failed to tailor resume. Please try again later.'' \<and>
   generateCalls (trace (snd (POST secondRenderFails exampleEnv pastedForm freshWorld))) =
     [None, Some shortenHintFirst] \<and>
   map snd (renders (trace (snd (POST secondRenderFails exampleEnv pastedForm freshWorld)))) =
     [Inr [1], Inl (newError ''Protocol error'')]"
proof -
  obtain db where "POST secondRenderFails exampleEnv pastedForm freshWorld =
     (JsonError 500 ''Failed to tailor resume. Please try again later.'',
      \<lparr>usersCollection = db, trace = faultyTrace\<rparr>)"
    using faulty_POST by blast
  then show ?thesis by (simp add: faultyTrace_def)
qed

text \<open>
  C9, amended. A render fault in any iteration, the last or not, ends the request: the
  failed \<open>latexToPdf\<close> call is the last event of the trace, no render fault precedes
  it, and the response has status 500 with the text of the \<open>catch\<close> block.
\<close>

theorem render_fault_aborts:
  assumes run: "POST c e form w = (resp, w')"
    and fault: "LatexToPdf l (Inl x) \<in> set (newEvents (trace w) (trace w'))"
  shows "resp = JsonError 500 (''Failed to tailor resume. '' @
            (if devMode e then message renderFaultError else ''Please try again later.'')) \<and>
         (\<exists>pre. trace w' = trace w @ pre @ [LatexToPdf l (Inl x)] \<and>
                \<not> list_ex isRenderFault pre)"
proof -
  from POST_fault [OF run] obtain evs where evs: "trace w' = trace w @ evs"
    "faultIsLast (errorResponse e renderFaultError) resp evs" by blast
  have mem: "LatexToPdf l (Inl x) \<in> set evs" using fault evs(1) by simp
  have isf: "isRenderFault (LatexToPdf l (Inl x))" by simp
  from mem isf have "list_ex isRenderFault evs" unfolding list_ex_iff by blast
  with evs(2) have resp: "resp = errorResponse e renderFaultError" and ne: "evs \<noteq> []"
    and quiet: "\<not> list_ex isRenderFault (butlast evs)"
    by (auto simp: faultIsLast_def)
  have "LatexToPdf l (Inl x) \<notin> set (butlast evs)"
    using quiet isf unfolding list_ex_iff by blast
  moreover have "evs = butlast evs @ [last evs]" using ne by simp
  ultimately have "last evs = LatexToPdf l (Inl x)" using mem
    by (metis Un_iff empty_iff empty_set set_ConsD set_append)
  then have "trace w' = trace w @ butlast evs @ [LatexToPdf l (Inl x)]"
    using evs(1) ne by (metis append_butlast_last_id)
  with resp quiet show ?thesis by (auto simp: renderFault_response)
qed

theorem render_fault_aborts_witness:
  "fst (POST secondRenderFails exampleEnv pastedForm freshWorld) =
     JsonError 500 (''Failed to tailor resume. '' @
       (if devMode exampleEnv then message renderFaultError else ''Please try again later.'')) \<and>
   (\<exists>pre. trace (snd (POST secondRenderFails exampleEnv pastedForm freshWorld)) =
            trace freshWorld @ pre @ [LatexToPdf ''body'' (Inl (newError ''Protocol error''))] \<and>
          \<not> list_ex isRenderFault pre)"
proof -
  obtain db where run: "POST secondRenderFails exampleEnv pastedForm freshWorld =
     (JsonError 500 ''Failed to tailor resume. Please try again later.'',
      \<lparr>usersCollection = db, trace = faultyTrace\<rparr>)"
    using faulty_POST by blast
  have fault: "LatexToPdf ''body'' (Inl (newError ''Protocol error'')) \<in>
      set (newEvents (trace freshWorld) (trace \<lparr>usersCollection = db, trace = faultyTrace\<rparr>))"
    by (simp add: newEvents_def freshWorld_def faultyTrace_def)
  have start: "trace freshWorld = []" by (simp add: freshWorld_def)
  from render_fault_aborts [OF run fault] show ?thesis by (simp add: run start)
qed

section \<open>Reservation before validation\<close>

text \<open>
  C10. A signed-in user who is not special and has today's slot available sends a request
  without a job description, or without resume text and without a file. With the storage
  reachable the response has status 400, no collaborator is called, and the slot is
  consumed: on the same UTC day \<open>checkAndReserveConversion\<close> denies the user and any
  further request by the user is answered with status 429 and the daily-limit reason.
\<close>

theorem slot_consumed_before_validation:
  assumes up1: "firestoreFault e1 = None" and up2: "firestoreFault e2 = None"
    and sameDay: "todayUTC e2 = todayUTC e1"
    and uid1: "trim (formString (userIdField form1)) = userId"
    and uid2: "trim (formString (userIdField form2)) = userId"
    and signedIn: "userId \<noteq> []"
    and avail: "case usersCollection w userId of None \<Rightarrow> True
       | Some d \<Rightarrow> isSpecial d \<noteq> Some True \<and>
           (lastConversionDate d \<noteq> Some (todayUTC e1) \<or> conversionsToday d = None \<or>
            conversionsToday d = Some 0)"
    and missing: "trim (formString (jobDescriptionField form1)) = [] \<or>
       (trim (formString (resumeTextField form1)) = [] \<and>
        (\<forall>f. resumeField form1 \<noteq> Some (FormFile f)))"
  shows "\<exists>msg w1. POST c e1 form1 w = (JsonError 400 msg, w1) \<and> trace w1 = trace w \<and>
           checkAndReserveConversion e2 (usersCollection w1) userId =
             (Inr \<lparr>allowed = False, reason = Some dailyLimitReason, remaining = Some 0\<rparr>,
              usersCollection w1) \<and>
           POST c e2 form2 w1 = (JsonError 429 dailyLimitReason, w1)"
proof -
  from reserve_available [of e1 "usersCollection w" userId, OF up1 avail] obtain db1 d1 where
    r1: "checkAndReserveConversion e1 (usersCollection w) userId =
            (Inr \<lparr>allowed = True, reason = None, remaining = Some 0\<rparr>, db1)"
    and d1: "db1 userId = Some d1" "isSpecial d1 \<noteq> Some True"
      "lastConversionDate d1 = Some (todayUTC e1)" "conversionsToday d1 = Some 1"
    by blast
  let ?w1 = "w\<lparr>usersCollection := db1\<rparr>"
  have r2: "checkAndReserveConversion e2 db1 userId =
             (Inr \<lparr>allowed = False, reason = Some dailyLimitReason, remaining = Some 0\<rparr>, db1)"
    using d1 sameDay up2 by (intro reserve_denied [where n = 1]) simp_all
  have first: "\<exists>msg. POST c e1 form1 w = (JsonError 400 msg, ?w1)"
    using missing uid1 signedIn r1
    by (auto simp: POST_def Let_def split: option.splits formValue.splits)
  have second: "POST c e2 form2 ?w1 = (JsonError 429 dailyLimitReason, ?w1)"
    using uid2 signedIn r2 by (simp add: POST_def Let_def jsOr_def dailyLimitReason_def)
  from first second r2 show ?thesis by auto
qed

theorem slot_consumed_before_validation_witness:
  "\<exists>msg w1. POST neverFits exampleEnv (pastedForm\<lparr>jobDescriptionField := None\<rparr>) freshWorld =
              (JsonError 400 msg, w1) \<and> trace w1 = trace freshWorld \<and>
           checkAndReserveConversion (exampleEnv\<lparr>nowLastConversion := 2000\<rparr>)
              (usersCollection w1) ''u1'' =
             (Inr \<lparr>allowed = False, reason = Some dailyLimitReason, remaining = Some 0\<rparr>,
              usersCollection w1) \<and>
           POST neverFits (exampleEnv\<lparr>nowLastConversion := 2000\<rparr>) pastedForm w1 =
             (JsonError 429 dailyLimitReason, w1)"
proof -
  have up1: "firestoreFault exampleEnv = None"
    and up2: "firestoreFault (exampleEnv\<lparr>nowLastConversion := 2000\<rparr>) = None"
    and sameDay: "todayUTC (exampleEnv\<lparr>nowLastConversion := 2000\<rparr>) = todayUTC exampleEnv"
    by (simp_all add: exampleEnv_def)
  have uid1: "trim (formString (userIdField (pastedForm\<lparr>jobDescriptionField := None\<rparr>))) = ''u1''"
    and uid2: "trim (formString (userIdField pastedForm)) = ''u1''"
    by (simp_all add: pastedForm_def form_texts)
  have signedIn: "''u1'' \<noteq> []" by simp
  have avail: "case usersCollection freshWorld ''u1'' of None \<Rightarrow> True
       | Some d \<Rightarrow> isSpecial d \<noteq> Some True \<and>
           (lastConversionDate d \<noteq> Some (todayUTC exampleEnv) \<or> conversionsToday d = None \<or>
            conversionsToday d = Some 0)"
    by (simp add: freshWorld_def)
  have missing: "trim (formString (jobDescriptionField (pastedForm\<lparr>jobDescriptionField := None\<rparr>))) = [] \<or>
       (trim (formString (resumeTextField (pastedForm\<lparr>jobDescriptionField := None\<rparr>))) = [] \<and>
        (\<forall>f. resumeField (pastedForm\<lparr>jobDescriptionField := None\<rparr>) \<noteq> Some (FormFile f)))"
    by (simp add: trim_def)
  show ?thesis
    by (rule slot_consumed_before_validation
          [OF up1 up2 sameDay uid1 uid2 signedIn avail missing])
qed

end
